theory Spec2Isabelle
  imports Main
begin

section \<open>Virtual module registry\<close>

text \<open>
  \<^verbatim>\<open>createVirtualModuleId\<close> of \<^verbatim>\<open>plugin/core.ts\<close>: the symbolic id is
  \<^verbatim>\<open>virtual:panda\<close> followed by the suffix, the resolved id is the symbolic one
  behind a NUL character.
\<close>

record VirtualModuleId =
  id_str :: string
  resolved :: string

definition createVirtualModuleId :: "string \<Rightarrow> VirtualModuleId" where
  "createVirtualModuleId i =
     (let base = ''virtual:panda'' @ i in \<lparr>id_str = base, resolved = CHR 0x00 # base\<rparr>)"

definition ids_css :: VirtualModuleId where
  "ids_css = createVirtualModuleId ''.css''"

definition ids_inlineCva :: VirtualModuleId where
  "ids_inlineCva = createVirtualModuleId ''-inline-cva''"

definition ids_compoundVariants :: VirtualModuleId where
  "ids_compoundVariants = createVirtualModuleId ''-compound-variants''"

text \<open>
  The \<^verbatim>\<open>resolveId\<close> hook: three comparisons in the order of the source, and
  \<^verbatim>\<open>undefined\<close> (here \<open>None\<close>) when the function falls off its end.
\<close>

definition resolveId :: "string \<Rightarrow> string option" where
  "resolveId i =
     (if i = id_str ids_css then Some (resolved ids_css)
      else if i = id_str ids_inlineCva then Some (resolved ids_inlineCva)
      else if i = id_str ids_compoundVariants then Some (resolved ids_compoundVariants)
      else None)"

section \<open>Plugin options\<close>

text \<open>
  Modelled from the spec: \<^verbatim>\<open>TransformOptions\<close> is declared in
  \<^verbatim>\<open>./transform\<close>, which is not among the sources. The spec gives each
  per-kind setting the values on, off and auto; \<^verbatim>\<open>core.ts\<close> itself only names
  \<^verbatim>\<open>'auto'\<close>.
\<close>

datatype optimize_mode = Auto | On | Off

text \<open>
  A key of an object literal: absent, present with the value \<^verbatim>\<open>undefined\<close> (or
  \<^verbatim>\<open>null\<close>), or present with a value. The \<^verbatim>\<open>??\<close> operator treats the first two
  alike; the spread of an object copies every key that is present, whatever its value.
\<close>

datatype 'a property = Absent | Undefined | Given 'a

text \<open>
  The object form of \<^verbatim>\<open>optimizeJs\<close>, with the six keys \<^verbatim>\<open>resolveOptions\<close>
  names.
\<close>

record optimize_kinds =
  css :: "optimize_mode property"
  cva :: "optimize_mode property"
  pattern :: "optimize_mode property"
  recipe :: "optimize_mode property"
  jsx_factory :: "optimize_mode property"
  jsx_pattern :: "optimize_mode property"

datatype optimize_js = OptBool bool | OptAuto | OptKinds optimize_kinds

text \<open>The values a user \<^verbatim>\<open>transform\<close> callback may return (\<^verbatim>\<open>TransformResult | void\<close>):
  nothing, a string, or an object with \<^verbatim>\<open>code\<close> and an optional \<^verbatim>\<open>map\<close>.\<close>

datatype transform_result = TNone | TString string | TObject string "string option"

text \<open>\<^verbatim>\<open>string | RegExp | (string | RegExp)[]\<close> of the include and exclude options;
  a regular expression is kept as its source text.\<close>

datatype matcher = Glob string | RegExp string

datatype filter_pattern = One matcher | Many "matcher list"

text \<open>
  \<^verbatim>\<open>PandaPluginOptions\<close>. Every key is optional in the source;
  \<^verbatim>\<open>resolveOptions\<close> returns the same shape with some keys filled in.
\<close>

record PandaPluginOptions =
  cwd :: "string option"
  configPath :: "string option"
  outfile :: "string option"
  include' :: "filter_pattern option"
  exclude :: "filter_pattern option"
  optimizeCss :: "bool option"
  optimizeJs :: "optimize_js option"
  transform :: "(string \<Rightarrow> string \<Rightarrow> transform_result) option"

text \<open>JavaScript truthiness of the values \<^verbatim>\<open>||\<close>, \<^verbatim>\<open>!\<close> and \<^verbatim>\<open>?:\<close> are
  applied to: an absent value and the empty string are falsy, a regular expression and an
  array (also an empty one) are truthy, and so are \<^verbatim>\<open>'auto'\<close> and every object.\<close>

definition truthy_string :: "string option \<Rightarrow> bool" where
  "truthy_string s = (case s of None \<Rightarrow> False | Some v \<Rightarrow> v \<noteq> [])"

definition truthy_pattern :: "filter_pattern option \<Rightarrow> bool" where
  "truthy_pattern p =
     (case p of None \<Rightarrow> False | Some (One (Glob s)) \<Rightarrow> s \<noteq> [] | Some _ \<Rightarrow> True)"

definition truthy_optimizeJs :: "optimize_js option \<Rightarrow> bool" where
  "truthy_optimizeJs v = (case v of None \<Rightarrow> False | Some (OptBool b) \<Rightarrow> b | Some _ \<Rightarrow> True)"

text \<open>\<^verbatim>\<open>a || b\<close> on an optional string and on an optional pattern.\<close>

definition or_string :: "string option \<Rightarrow> string \<Rightarrow> string" where
  "or_string a b = (case a of None \<Rightarrow> b | Some v \<Rightarrow> if v \<noteq> [] then v else b)"

definition or_pattern :: "filter_pattern option \<Rightarrow> filter_pattern \<Rightarrow> filter_pattern" where
  "or_pattern a b = (case a of None \<Rightarrow> b | Some v \<Rightarrow> if truthy_pattern a then v else b)"

text \<open>\<^verbatim>\<open>a ?? b\<close> on an optional value.\<close>

definition nullish :: "'a option \<Rightarrow> 'a \<Rightarrow> 'a" where
  "nullish a b = (case a of None \<Rightarrow> b | Some v \<Rightarrow> v)"

text \<open>\<^verbatim>\<open>k ?? b\<close> on a key of an object.\<close>

definition key_or :: "'a property \<Rightarrow> 'a \<Rightarrow> 'a" where
  "key_or k b = (case k of Given v \<Rightarrow> v | _ \<Rightarrow> b)"

text \<open>
  The object literal that \<^verbatim>\<open>resolveOptions\<close> assigns to its local variable when
  \<^verbatim>\<open>optimizeJs\<close> is an object: six defaults, four of them read from \<^verbatim>\<open>cva\<close>,
  then the spread of the given object. Every key the given object has replaces the
  default, also a key whose value is \<^verbatim>\<open>undefined\<close>; a default stays only where the key
  is absent.
\<close>

definition spread_kinds :: "optimize_kinds \<Rightarrow> optimize_kinds \<Rightarrow> optimize_kinds" where
  "spread_kinds base over =
     \<lparr>css = (case css over of Absent \<Rightarrow> css base | k \<Rightarrow> k),
      cva = (case cva over of Absent \<Rightarrow> cva base | k \<Rightarrow> k),
      pattern = (case pattern over of Absent \<Rightarrow> pattern base | k \<Rightarrow> k),
      recipe = (case recipe over of Absent \<Rightarrow> recipe base | k \<Rightarrow> k),
      jsx_factory = (case jsx_factory over of Absent \<Rightarrow> jsx_factory base | k \<Rightarrow> k),
      jsx_pattern = (case jsx_pattern over of Absent \<Rightarrow> jsx_pattern base | k \<Rightarrow> k)\<rparr>"

definition normalized_kinds :: "optimize_kinds \<Rightarrow> optimize_kinds" where
  "normalized_kinds k =
     spread_kinds
       \<lparr>css = Given (key_or (css k) Auto),
        cva = Given (key_or (cva k) Auto),
        pattern = Given (key_or (cva k) Auto),
        recipe = Given (key_or (cva k) Auto),
        jsx_factory = Given (key_or (cva k) Auto),
        jsx_pattern = Given (key_or (cva k) Auto)\<rparr> k"

definition normalized_optimizeJs :: "optimize_js option \<Rightarrow> optimize_js" where
  "normalized_optimizeJs raw =
     (let optimizeJs = nullish raw OptAuto in
      case optimizeJs of OptKinds k \<Rightarrow> OptKinds (normalized_kinds k) | _ \<Rightarrow> optimizeJs)"

definition default_include :: filter_pattern where
  "default_include = Many [RegExp (CHR 0x5C # ''.[cm]?[jt]sx?$'')]"

definition default_exclude :: filter_pattern where
  "default_exclude = Many [RegExp ''node_modules'', RegExp ''styled-system'']"

text \<open>
  \<^verbatim>\<open>resolveOptions\<close>. The local \<^verbatim>\<open>optimizeJs\<close> is computed as in the source; the
  returned object reads \<^verbatim>\<open>options.optimizeJs\<close> again and does not mention the local.
\<close>

definition resolveOptions :: "PandaPluginOptions \<Rightarrow> PandaPluginOptions" where
  "resolveOptions options =
     (let optimizeJs_local = normalized_optimizeJs (optimizeJs options) in
      options
        \<lparr>cwd := Some (or_string (cwd options) []),
         configPath := configPath options,
         include' := Some (or_pattern (include' options) default_include),
         exclude := Some (or_pattern (exclude options) default_exclude),
         optimizeCss := Some (nullish (optimizeCss options) True),
         optimizeJs := Some (nullish (optimizeJs options) OptAuto)\<rparr>)"

section \<open>External collaborators\<close>

text \<open>
  Errors that reject the promise of a hook: a failed configuration load, the error
  \<^verbatim>\<open>getCtx\<close> throws when \<^verbatim>\<open>_ctx\<close> is not set, and the failures of
  \<^verbatim>\<open>reloadContext\<close>, \<^verbatim>\<open>fs.writeFile\<close> and \<^verbatim>\<open>codegen\<close>.
\<close>

datatype error =
    ConfigurationError string
  | UninitializedError
  | ReloadError string
  | WriteError string
  | CodegenError string
  | DanglingContext

text \<open>
  \<^verbatim>\<open>LoadConfigResult\<close> of \<^verbatim>\<open>@pandacss/types\<close>, with the keys the plugin reads or
  writes: \<^verbatim>\<open>path\<close>, \<^verbatim>\<open>dependencies\<close>, \<^verbatim>\<open>config.cwd\<close> and
  \<^verbatim>\<open>config.dependencies\<close>.
\<close>

record LoadConfigResult =
  path :: string
  dependencies :: "string list option"
  config_cwd :: "string option"
  config_dependencies :: "string list option"

text \<open>
  \<^verbatim>\<open>PandaPluginContext\<close>, the object \<^verbatim>\<open>createContext\<close> returns: the style engine
  (of an abstract type \<open>'e\<close>), the root and the \<^verbatim>\<open>files\<close> map.
\<close>

record 'e PandaPluginContext =
  panda :: 'e
  root :: string
  files :: "string \<rightharpoonup> string"

text \<open>
  The functions \<^verbatim>\<open>core.ts\<close> imports, all defined outside the sources at hand and taken
  as parameters: \<open>'e\<close> is the engine, \<open>'p\<close> a parser result, \<open>'s\<close> a sheet.
  \<^verbatim>\<open>inlineCva_src\<close> and \<^verbatim>\<open>addCompoundVariantCss_src\<close> are the texts
  \<^verbatim>\<open>Function.prototype.toString\<close> gives for the two helpers. \<open>engine_conf\<close> reads
  \<^verbatim>\<open>panda.conf\<close> and \<^verbatim>\<open>panda.config.dependencies\<close>; \<open>writeFile\<close> returns
  the error of a failed write.
\<close>

record ('e, 'p, 's) collaborators =
  loadConfig :: "string \<Rightarrow> string option \<Rightarrow> error + LoadConfigResult"
  createContext :: "string \<Rightarrow> LoadConfigResult \<Rightarrow> 'e PandaPluginContext"
  reloadContext :: "'e PandaPluginContext \<Rightarrow> error + 'e PandaPluginContext"
  engine_conf :: "'e \<Rightarrow> LoadConfigResult"
  createSheet :: "'e \<Rightarrow> 's"
  toCss :: "'e PandaPluginContext \<Rightarrow> 's \<Rightarrow> PandaPluginOptions \<Rightarrow> string"
  addSourceFile :: "'e \<Rightarrow> string \<Rightarrow> string \<Rightarrow> 'e"
  parseSourceFile :: "'e \<Rightarrow> string \<Rightarrow> 'e \<times> 'p option"
  isEmpty :: "'p \<Rightarrow> bool"
  tranformPanda ::
    "'e PandaPluginContext \<Rightarrow> string \<Rightarrow> string \<Rightarrow> 'p \<Rightarrow> optimize_js \<Rightarrow> transform_result"
  ensureAbsolute :: "string \<Rightarrow> string \<Rightarrow> string"
  dirname :: "string \<Rightarrow> string"
  createFilter :: "filter_pattern option \<Rightarrow> filter_pattern option \<Rightarrow> string \<Rightarrow> bool"
  codegen :: "'e \<Rightarrow> error + string"
  writeFile :: "string \<Rightarrow> string \<Rightarrow> error option"
  inlineCva_src :: string
  addCompoundVariantCss_src :: string

section \<open>Plugin state\<close>

text \<open>
  What the plugin does to the outside, in the order it does it. \<open>LoadConfig\<close> is the
  call of \<^verbatim>\<open>loadConfig\<close>; \<open>CreateContext r\<close> the construction of the context
  object \<open>r\<close>; \<open>ReloadContext r\<close> a completed \<^verbatim>\<open>reloadContext()\<close> on it;
  \<open>CreateSheet r\<close> a recomputation of the artifact from it; \<open>WriteFile p t\<close> a
  completed \<^verbatim>\<open>fs.writeFile\<close>; \<open>InvalidateModule i t\<close> a call of
  \<^verbatim>\<open>moduleGraph.invalidateModule\<close> on the module of id \<open>i\<close> with timestamp \<open>t\<close>.
\<close>

datatype event =
    LoadConfig string "string option"
  | CreateContext nat
  | ReloadContext nat
  | CreateSheet nat
  | WriteFile string string
  | Codegen nat
  | WatcherAdd string
  | InvalidateModule string nat
  | AddSourceFile nat string string
  | ParseSourceFile nat string

text \<open>
  \<^verbatim>\<open>initPromise\<close>: pending (with the outcome the configuration load is going to have),
  fulfilled or rejected. The variable itself is \<open>None\<close> while it is \<^verbatim>\<open>undefined\<close>.
\<close>

datatype promise_state = Pending "error + LoadConfigResult" | Fulfilled | Rejected error

text \<open>
  The variables \<^verbatim>\<open>unpluginFactory\<close> closes over. \<open>ctx_var\<close> is \<^verbatim>\<open>_ctx\<close>: a
  reference into \<open>heap\<close>, where the context objects live, so that the identity of a
  context is apart from what it holds. \<open>outfile_var\<close> is the \<^verbatim>\<open>outfile\<close> variable.
\<close>

record 'e plugin_state =
  options :: PandaPluginOptions
  outfile_var :: string
  ctx_var :: "nat option"
  initPromise :: "promise_state option"
  heap :: "nat \<rightharpoonup> 'e PandaPluginContext"
  next_ref :: nat
  trace :: "event list"

definition emit :: "event list \<Rightarrow> 'e plugin_state \<Rightarrow> 'e plugin_state" where
  "emit evs st = st\<lparr>trace := trace st @ evs\<rparr>"

definition empty_options :: PandaPluginOptions where
  "empty_options =
     \<lparr>cwd = None, configPath = None, outfile = None, include' = None, exclude = None,
      optimizeCss = None, optimizeJs = None, transform = None\<rparr>"

text \<open>\<^verbatim>\<open>options.outfile ? ensureAbsolute(options.outfile, options.cwd) : ids.css.resolved\<close>\<close>

definition compute_outfile :: "('e, 'p, 's) collaborators \<Rightarrow> PandaPluginOptions \<Rightarrow> string" where
  "compute_outfile H opts =
     (case outfile opts of
        None \<Rightarrow> resolved ids_css
      | Some f \<Rightarrow> if f \<noteq> [] then ensureAbsolute H f (nullish (cwd opts) []) else resolved ids_css)"

text \<open>The state \<^verbatim>\<open>unpluginFactory\<close> sets up before it returns the hooks.\<close>

definition unpluginFactory ::
  "('e, 'p, 's) collaborators \<Rightarrow> PandaPluginOptions option \<Rightarrow> 'e plugin_state" where
  "unpluginFactory H rawOptions =
     (let opts = resolveOptions (nullish rawOptions empty_options) in
      \<lparr>options = opts, outfile_var = compute_outfile H opts, ctx_var = None,
       initPromise = None, heap = Map.empty, next_ref = 0, trace = []\<rparr>)"

section \<open>Context manager\<close>

text \<open>
  \<^verbatim>\<open>init\<close>, up to the point where it returns the promise: a promise that is already
  there is returned as it is; otherwise \<^verbatim>\<open>loadConfig\<close> is called and its promise,
  chained with the callback below, becomes \<^verbatim>\<open>initPromise\<close>.
\<close>

definition init :: "('e, 'p, 's) collaborators \<Rightarrow> 'e plugin_state \<Rightarrow> 'e plugin_state" where
  "init H st =
     (case initPromise st of
        Some p \<Rightarrow> st
      | None \<Rightarrow>
          (let c = nullish (cwd (options st)) []; f = configPath (options st) in
           emit [LoadConfig c f] (st\<lparr>initPromise := Some (Pending (loadConfig H c f))\<rparr>)))"

text \<open>
  The settlement of a pending \<^verbatim>\<open>initPromise\<close>. When the load succeeded the
  \<^verbatim>\<open>then\<close> callback runs: it binds the configuration to \<^verbatim>\<open>options.cwd\<close>, as read
  at that moment, and stores a new context object in \<^verbatim>\<open>_ctx\<close>. When the load failed the
  promise is rejected and the callback does not run.
\<close>

definition settle :: "('e, 'p, 's) collaborators \<Rightarrow> 'e plugin_state \<Rightarrow> 'e plugin_state" where
  "settle H st =
     (case initPromise st of
        Some (Pending (Inr conf)) \<Rightarrow>
          (let conf' = conf\<lparr>config_cwd := cwd (options st)\<rparr>;
               r = next_ref st;
               c = createContext H (nullish (cwd (options st)) []) conf'
           in emit [CreateContext r]
                (st\<lparr>ctx_var := Some r, heap := (heap st)(r \<mapsto> c), next_ref := Suc r,
                    initPromise := Some Fulfilled\<rparr>))
      | Some (Pending (Inl e)) \<Rightarrow> st\<lparr>initPromise := Some (Rejected e)\<rparr>
      | _ \<Rightarrow> st)"

text \<open>
  What a caller of \<^verbatim>\<open>getCtx\<close> gets when it resumes after \<^verbatim>\<open>await init()\<close>: the
  rejection of the promise, or else \<^verbatim>\<open>_ctx\<close>, or the error thrown when \<^verbatim>\<open>_ctx\<close> is
  not set.
\<close>

definition resume :: "'e plugin_state \<Rightarrow> error + nat" where
  "resume st =
     (case initPromise st of
        Some (Rejected e) \<Rightarrow> Inl e
      | _ \<Rightarrow> (case ctx_var st of None \<Rightarrow> Inl UninitializedError | Some r \<Rightarrow> Inr r))"

text \<open>
  Callers on the event loop. \<open>Call k\<close> is caller \<open>k\<close> entering \<^verbatim>\<open>getCtx\<close>: it runs
  \<^verbatim>\<open>init\<close> and is suspended at the \<^verbatim>\<open>await\<close> while the promise is pending.
  \<open>Settle\<close> is the configuration load coming back: the promise settles and every
  suspended caller resumes, in the order of arrival.
\<close>

datatype action = Call nat | Settle

record 'e event_loop =
  plugin :: "'e plugin_state"
  suspended :: "nat list"
  returned :: "(nat \<times> (error + nat)) list"

fun loop_step ::
  "('e, 'p, 's) collaborators \<Rightarrow> 'e event_loop \<Rightarrow> action \<Rightarrow> 'e event_loop" where
  "loop_step H s (Call k) =
     (let st = init H (plugin s) in
      case initPromise st of
        Some (Pending _) \<Rightarrow> s\<lparr>plugin := st, suspended := suspended s @ [k]\<rparr>
      | _ \<Rightarrow> s\<lparr>plugin := st, returned := returned s @ [(k, resume st)]\<rparr>)"
| "loop_step H s Settle =
     (let st = settle H (plugin s) in
      s\<lparr>plugin := st, suspended := [],
        returned := returned s @ map (\<lambda>k. (k, resume st)) (suspended s)\<rparr>)"

definition run_loop ::
  "('e, 'p, 's) collaborators \<Rightarrow> 'e plugin_state \<Rightarrow> action list \<Rightarrow> 'e event_loop" where
  "run_loop H st as = foldl (loop_step H) \<lparr>plugin = st, suspended = [], returned = []\<rparr> as"

text \<open>
  \<^verbatim>\<open>getCtx\<close> for a hook that runs alone: the load it may have started comes back before
  anything else happens. The result is the state and the reference to the context.
\<close>

definition getCtx ::
  "('e, 'p, 's) collaborators \<Rightarrow> 'e plugin_state \<Rightarrow> 'e plugin_state \<times> (error + nat)" where
  "getCtx H st = (let st1 = settle H (init H st) in (st1, resume st1))"

text \<open>
  Reading the object behind a reference. A reference with no object behind it does not
  arise (\<open>getCtx_live\<close> below); it is an error of its own, so that no read is left
  without a value.
\<close>

definition deref :: "'e plugin_state \<Rightarrow> nat \<Rightarrow> error + 'e PandaPluginContext" where
  "deref st r = (case heap st r of None \<Rightarrow> Inl DanglingContext | Some c \<Rightarrow> Inr c)"

section \<open>Hooks\<close>

text \<open>\<^verbatim>\<open>ctx.toCss(ctx.panda.createSheet(), options)\<close>\<close>

definition artifact ::
  "('e, 'p, 's) collaborators \<Rightarrow> 'e PandaPluginContext \<Rightarrow> PandaPluginOptions \<Rightarrow> string" where
  "artifact H c opts = toCss H c (createSheet H (panda c)) opts"

text \<open>
  \<^verbatim>\<open>load\<close>: the two helper modules, then \<^verbatim>\<open>undefined\<close> for every id other than
  \<^verbatim>\<open>outfile\<close>, then the stylesheet of the live context.
\<close>

definition load ::
  "('e, 'p, 's) collaborators \<Rightarrow> 'e plugin_state \<Rightarrow> string
     \<Rightarrow> 'e plugin_state \<times> (error + string option)" where
  "load H st i =
     (if i = resolved ids_inlineCva then (st, Inr (Some (''export '' @ inlineCva_src H)))
      else if i = resolved ids_compoundVariants
        then (st, Inr (Some (''export '' @ addCompoundVariantCss_src H)))
      else if i \<noteq> outfile_var st then (st, Inr None)
      else
        (case getCtx H st of
           (st1, Inl e) \<Rightarrow> (st1, Inl e)
         | (st1, Inr r) \<Rightarrow>
             (case deref st1 r of
                Inl e \<Rightarrow> (st1, Inl e)
              | Inr c \<Rightarrow> (emit [CreateSheet r] st1, Inr (Some (artifact H c (options st1)))))))"

definition transformInclude ::
  "('e, 'p, 's) collaborators \<Rightarrow> 'e plugin_state \<Rightarrow> string \<Rightarrow> bool" where
  "transformInclude H st i = createFilter H (include' (options st)) (exclude (options st)) i"

text \<open>
  The code \<^verbatim>\<open>transform\<close> hands to the engine: the user callback's result when there is
  a callback and its result is truthy, the \<^verbatim>\<open>code\<close> of an object result, the string of
  a string result, and the original code otherwise.
\<close>

definition user_transformed :: "PandaPluginOptions \<Rightarrow> string \<Rightarrow> string \<Rightarrow> string" where
  "user_transformed opts code i =
     (case transform opts of
        None \<Rightarrow> code
      | Some f \<Rightarrow>
          (case f i code of
             TNone \<Rightarrow> code
           | TString s \<Rightarrow> if s \<noteq> [] then s else code
           | TObject c m \<Rightarrow> c))"

text \<open>
  \<^verbatim>\<open>transform\<close>. The result \<open>None\<close> is \<^verbatim>\<open>null\<close>. The engine is changed by
  \<^verbatim>\<open>addSourceFile\<close> and \<^verbatim>\<open>parseSourceFile\<close> in the context object itself, and so
  is \<^verbatim>\<open>files\<close>.
\<close>

definition transform_hook ::
  "('e, 'p, 's) collaborators \<Rightarrow> 'e plugin_state \<Rightarrow> string \<Rightarrow> string
     \<Rightarrow> 'e plugin_state \<times> (error + transform_result option)" where
  "transform_hook H st code i =
     (case getCtx H st of
        (st1, Inl e) \<Rightarrow> (st1, Inl e)
      | (st1, Inr r) \<Rightarrow>
          (case deref st1 r of
             Inl e \<Rightarrow> (st1, Inl e)
           | Inr c \<Rightarrow>
               (let tcode = user_transformed (options st1) code i;
                    e1 = addSourceFile H (panda c) i tcode;
                    (e2, parserResult) = parseSourceFile H e1 i;
                    c2 = c\<lparr>panda := e2\<rparr>;
                    st2 = emit [AddSourceFile r i tcode, ParseSourceFile r i]
                            (st1\<lparr>heap := (heap st1)(r \<mapsto> c2)\<rparr>)
                in case parserResult of
                     None \<Rightarrow> (st2, Inr None)
                   | Some p \<Rightarrow>
                       (let c3 = (if \<not> isEmpty H p then c2\<lparr>files := (files c2)(i \<mapsto> code)\<rparr>
                                  else c2);
                            st3 = st2\<lparr>heap := (heap st2)(r \<mapsto> c3)\<rparr>
                        in case optimizeJs (options st3) of
                             None \<Rightarrow> (st3, Inr None)
                           | Some oj \<Rightarrow>
                               if \<not> truthy_optimizeJs (Some oj) then (st3, Inr None)
                               else (st3, Inr (Some (tranformPanda H c3 code i p oj)))))))"

text \<open>
  In \<^verbatim>\<open>transform_hook\<close> the optimisation step \<^verbatim>\<open>tranformPanda\<close> is a function of
  its arguments that returns the rewritten code: it is the last thing the hook does, and
  the spec has it depend on the parsed result only.
\<close>

subsection \<open>The hooks of the development server\<close>

text \<open>The two keys of the host's resolved configuration that \<^verbatim>\<open>configResolved\<close> reads.\<close>

record ResolvedConfig =
  configFile :: "string option"
  config_root :: string

definition configResolved ::
  "('e, 'p, 's) collaborators \<Rightarrow> ResolvedConfig \<Rightarrow> 'e plugin_state \<Rightarrow> 'e plugin_state" where
  "configResolved H config st =
     (if \<not> truthy_string (cwd (options st)) then
        (let opts = (options st)
               \<lparr>cwd := Some (case configFile config of
                                None \<Rightarrow> config_root config
                              | Some f \<Rightarrow> if f \<noteq> [] then dirname H f else config_root config)\<rparr>
         in st\<lparr>options := opts, outfile_var := compute_outfile H opts\<rparr>)
      else st)"

text \<open>
  \<^verbatim>\<open>new Set(xs)\<close>: the elements in the order of their first occurrence, which is the
  order \<^verbatim>\<open>forEach\<close> visits them in.
\<close>

definition new_Set :: "'a list \<Rightarrow> 'a list" where
  "new_Set xs = foldl (\<lambda>acc x. if x \<in> set acc then acc else acc @ [x]) [] xs"

text \<open>
  The set \<^verbatim>\<open>sources\<close> of \<^verbatim>\<open>configureServer\<close>: the configuration's path and the two
  dependency lists (\<^verbatim>\<open>?? []\<close> when absent), each made absolute against the context's root.
\<close>

definition sources_of ::
  "('e, 'p, 's) collaborators \<Rightarrow> 'e PandaPluginContext \<Rightarrow> string list" where
  "sources_of H c =
     (let conf = engine_conf H (panda c) in
      new_Set (map (\<lambda>f. ensureAbsolute H f (root c))
                 ([path conf] @ nullish (dependencies conf) []
                    @ nullish (config_dependencies conf) [])))"

text \<open>
  What the callback registered with \<^verbatim>\<open>server.watcher.on('change', ...)\<close> closes over:
  the context \<^verbatim>\<open>configureServer\<close> obtained and the set \<^verbatim>\<open>sources\<close>. The module
  graph of the server is an argument of the hooks below: \<open>graph i\<close> says whether
  \<^verbatim>\<open>getModuleById(i)\<close> finds a module.
\<close>

record watcher_closure =
  w_ctx :: nat
  w_sources :: "string list"

definition configureServer ::
  "('e, 'p, 's) collaborators \<Rightarrow> 'e plugin_state
     \<Rightarrow> 'e plugin_state \<times> (error + watcher_closure)" where
  "configureServer H st =
     (case getCtx H st of
        (st1, Inl e) \<Rightarrow> (st1, Inl e)
      | (st1, Inr r) \<Rightarrow>
          (case deref st1 r of
             Inl e \<Rightarrow> (st1, Inl e)
           | Inr c \<Rightarrow>
               (let written =
                      (if outfile_var st1 \<noteq> resolved ids_css then
                         (let css = artifact H c (options st1);
                              st2 = emit [CreateSheet r] st1
                          in case writeFile H (outfile_var st1) css of
                               Some e \<Rightarrow> (st2, Some e)
                             | None \<Rightarrow> (emit [WriteFile (outfile_var st1) css] st2, None))
                       else (st1, None))
                in case written of
                     (st2, Some e) \<Rightarrow> (st2, Inl e)
                   | (st2, None) \<Rightarrow>
                       (case codegen H (panda c) of
                          Inl e \<Rightarrow> (st2, Inl e)
                        | Inr msg \<Rightarrow>
                            (let sources = sources_of H c;
                                 st3 = emit (Codegen r # map WatcherAdd sources) st2
                             in (st3, Inr \<lparr>w_ctx = r, w_sources = sources\<rparr>))))))"

text \<open>
  The \<^verbatim>\<open>change\<close> callback of the watcher, for the changed \<open>file\<close>, with
  \<open>now\<close> the value of \<^verbatim>\<open>Date.now()\<close>. \<^verbatim>\<open>reloadContext\<close> is a method of the
  context object the callback holds and works inside that object. \<^verbatim>\<open>_ctx\<close> is a
  variable local to \<^verbatim>\<open>unpluginFactory\<close>, out of the reach of the module that defines
  the method, and \<^verbatim>\<open>core.ts\<close> assigns it in \<^verbatim>\<open>init\<close> only: the callback leaves it
  as it is. A reload that fails rejects the promise of the callback before anything is
  invalidated; the object is then taken to be as it was, which is what the spec asks of a
  failed reload.
\<close>

definition on_change ::
  "('e, 'p, 's) collaborators \<Rightarrow> watcher_closure \<Rightarrow> (string \<Rightarrow> bool) \<Rightarrow> nat
     \<Rightarrow> 'e plugin_state \<Rightarrow> string \<Rightarrow> 'e plugin_state \<times> (error + unit)" where
  "on_change H w graph now st file =
     (case deref st (w_ctx w) of
        Inl e \<Rightarrow> (st, Inl e)
      | Inr c \<Rightarrow>
          (let filePath = ensureAbsolute H file (root c) in
           if filePath \<notin> set (w_sources w) then (st, Inr ())
           else
             (case reloadContext H c of
                Inl e \<Rightarrow> (st, Inl e)
              | Inr c' \<Rightarrow>
                  (let st1 = emit [ReloadContext (w_ctx w)]
                               (st\<lparr>heap := (heap st)(w_ctx w \<mapsto> c')\<rparr>)
                   in if graph (outfile_var st1)
                      then (emit [InvalidateModule (outfile_var st1) now] st1, Inr ())
                      else (st1, Inr ())))))"

text \<open>\<^verbatim>\<open>HmrContext\<close>: the changed file and the timestamp of the update.\<close>

record HmrContext =
  hmr_file :: string
  timestamp :: nat

definition handleHotUpdate ::
  "('e, 'p, 's) collaborators \<Rightarrow> HmrContext \<Rightarrow> (string \<Rightarrow> bool)
     \<Rightarrow> 'e plugin_state \<Rightarrow> 'e plugin_state \<times> (error + unit)" where
  "handleHotUpdate H hmr graph st =
     (case getCtx H st of
        (st1, Inl e) \<Rightarrow> (st1, Inl e)
      | (st1, Inr r) \<Rightarrow>
          (case deref st1 r of
             Inl e \<Rightarrow> (st1, Inl e)
           | Inr c \<Rightarrow>
               if hmr_file hmr = outfile_var st1 then (st1, Inr ())
               else if files c (hmr_file hmr) = None then (st1, Inr ())
               else if graph (outfile_var st1) then
                 (let st2 = emit [InvalidateModule (outfile_var st1) (timestamp hmr)] st1
                  in if outfile_var st2 \<noteq> resolved ids_css then
                       (let css = artifact H c (options st2);
                            st3 = emit [CreateSheet r] st2
                        in case writeFile H (outfile_var st2) css of
                             Some e \<Rightarrow> (st3, Inl e)
                           | None \<Rightarrow> (emit [WriteFile (outfile_var st2) css] st3, Inr ()))
                     else (st2, Inr ()))
               else (st1, Inr ())))"

section \<open>A small host for evaluation\<close>

text \<open>
  Concrete collaborators on which the hooks can be run: the engine is the configuration
  together with a registry of source files, a parser result is the list of styling calls
  found (none for code that does not start with \<^verbatim>\<open>css\<close>, and no result at all for an
  empty file), a sheet is the list of registered texts. Absolute paths start with a slash.
\<close>

type_synonym demo_engine = "LoadConfigResult \<times> (string \<times> string) list"

definition demo_conf :: LoadConfigResult where
  "demo_conf =
     \<lparr>path = ''/proj/panda.config.ts'', dependencies = Some [''theme.ts''],
      config_cwd = None, config_dependencies = None\<rparr>"

definition demo_absolute :: "string \<Rightarrow> string \<Rightarrow> string" where
  "demo_absolute f rt =
     (case f of [] \<Rightarrow> rt | c # cs \<Rightarrow> if c = CHR ''/'' then f else rt @ ''/'' @ f)"

definition demo_parse :: "demo_engine \<Rightarrow> string \<Rightarrow> demo_engine \<times> string list option" where
  "demo_parse e i =
     (e, case map_of (snd e) i of
           None \<Rightarrow> None
         | Some code \<Rightarrow>
             if code = [] then None
             else if take 3 code = ''css'' then Some [code] else Some [])"

definition demo_host :: "(demo_engine, string list, string list) collaborators" where
  "demo_host =
     \<lparr>loadConfig = (\<lambda>c f. Inr demo_conf),
      createContext = (\<lambda>rt conf.
        \<lparr>panda = (conf, []), root = (if rt = [] then ''/proj'' else rt), files = Map.empty\<rparr>),
      reloadContext = (\<lambda>c. Inr (c\<lparr>panda := (fst (panda c), [])\<rparr>)),
      engine_conf = fst,
      createSheet = (\<lambda>e. map snd (snd e)),
      toCss = (\<lambda>c sheet opts. concat sheet),
      addSourceFile = (\<lambda>e i code. (fst e, (i, code) # filter (\<lambda>kv. fst kv \<noteq> i) (snd e))),
      parseSourceFile = demo_parse,
      isEmpty = (\<lambda>p. p = []),
      tranformPanda = (\<lambda>c code i p oj. TString code),
      ensureAbsolute = demo_absolute,
      dirname = (\<lambda>f. rev (drop 1 (dropWhile (\<lambda>c. c \<noteq> CHR ''/'') (rev f)))),
      createFilter = (\<lambda>inc exc i. True),
      codegen = (\<lambda>e. Inr ''codegen done''),
      writeFile = (\<lambda>p t. None),
      inlineCva_src = ''function inlineCva() {}'',
      addCompoundVariantCss_src = ''function addCompoundVariantCss() {}''\<rparr>"

text \<open>Options with an output file, and options that switch the optimisation off.\<close>

definition demo_outfile_options :: PandaPluginOptions where
  "demo_outfile_options =
     empty_options\<lparr>cwd := Some ''/proj'', outfile := Some ''/proj/out/panda.css'',
       optimizeJs := Some (OptBool False)\<rparr>"

definition demo_virtual_options :: PandaPluginOptions where
  "demo_virtual_options = empty_options\<lparr>cwd := Some ''/proj'', optimizeJs := Some (OptBool False)\<rparr>"

definition demo_kinds :: optimize_kinds where
  "demo_kinds =
     \<lparr>css = Absent, cva = Given Off, pattern = Absent, recipe = Absent,
      jsx_factory = Absent, jsx_pattern = Absent\<rparr>"

text \<open>Options with a user transform that puts a styling call in front of the code.\<close>

definition demo_transform_options :: PandaPluginOptions where
  "demo_transform_options =
     empty_options\<lparr>cwd := Some ''/proj'',
       transform := Some (\<lambda>i code. TObject (''css(); '' @ code) None)\<rparr>"

text \<open>
  States of the small host: as the factory leaves it, and after the transform of one source
  file with a styling call, with and without an output file.
\<close>

definition demo_fresh_out :: "demo_engine plugin_state" where
  "demo_fresh_out = unpluginFactory demo_host (Some demo_outfile_options)"

definition demo_tracked_out :: "demo_engine plugin_state" where
  "demo_tracked_out =
     fst (transform_hook demo_host demo_fresh_out ''css({color: red})'' ''/proj/src/a.tsx'')"

definition demo_tracked_virtual :: "demo_engine plugin_state" where
  "demo_tracked_virtual =
     fst (transform_hook demo_host (unpluginFactory demo_host (Some demo_virtual_options))
            ''css({color: red})'' ''/proj/src/a.tsx'')"

text \<open>The same after the start of the development server, and the watcher it registers.\<close>

definition demo_served :: "demo_engine plugin_state" where
  "demo_served = fst (configureServer demo_host demo_tracked_out)"

definition demo_watcher :: watcher_closure where
  "demo_watcher = \<lparr>w_ctx = 0, w_sources = [''/proj/panda.config.ts'', ''/proj/theme.ts'']\<rparr>"

definition demo_hmr :: HmrContext where
  "demo_hmr = \<lparr>hmr_file = ''/proj/src/a.tsx'', timestamp = 7\<rparr>"

definition demo_fresh_transform :: "demo_engine plugin_state" where
  "demo_fresh_transform = unpluginFactory demo_host (Some demo_transform_options)"

text \<open>The context object of the small host when it is created, and after the transform of
  the one source file.\<close>

definition demo_new_ctx :: "demo_engine PandaPluginContext" where
  "demo_new_ctx =
     \<lparr>panda = (demo_conf\<lparr>config_cwd := Some ''/proj''\<rparr>, []), root = ''/proj'',
      files = Map.empty\<rparr>"

definition demo_ctx :: "demo_engine PandaPluginContext" where
  "demo_ctx =
     \<lparr>panda = (demo_conf\<lparr>config_cwd := Some ''/proj''\<rparr>,
               [(''/proj/src/a.tsx'', ''css({color: red})'')]),
      root = ''/proj'',
      files = [''/proj/src/a.tsx'' \<mapsto> ''css({color: red})'']\<rparr>"

section \<open>Invariants\<close>

text \<open>
  \<open>outfile_ok\<close>: the \<^verbatim>\<open>outfile\<close> variable is what the options give, as after the
  factory and after \<^verbatim>\<open>configResolved\<close>. \<open>ctx_live\<close>: \<^verbatim>\<open>_ctx\<close>, once set, refers
  to an object.
\<close>

definition outfile_ok :: "('e, 'p, 's) collaborators \<Rightarrow> 'e plugin_state \<Rightarrow> bool" where
  "outfile_ok H st \<longleftrightarrow> outfile_var st = compute_outfile H (options st)"

definition ctx_live :: "'e plugin_state \<Rightarrow> bool" where
  "ctx_live st \<longleftrightarrow> (\<forall>r. ctx_var st = Some r \<longrightarrow> heap st r \<noteq> None)"

fun is_WriteFile :: "event \<Rightarrow> bool" where
  "is_WriteFile (WriteFile p t) = True"
| "is_WriteFile e = False"

section \<open>Properties of the registry and of the options\<close>

lemma ids_values:
  "id_str ids_css = ''virtual:panda.css''"
  "id_str ids_inlineCva = ''virtual:panda-inline-cva''"
  "id_str ids_compoundVariants = ''virtual:panda-compound-variants''"
  "resolved ids_css = CHR 0x00 # ''virtual:panda.css''"
  "resolved ids_inlineCva = CHR 0x00 # ''virtual:panda-inline-cva''"
  "resolved ids_compoundVariants = CHR 0x00 # ''virtual:panda-compound-variants''"
  by (simp_all add: ids_css_def ids_inlineCva_def ids_compoundVariants_def
      createVirtualModuleId_def Let_def)

text \<open>
  Claim C9, stable virtual identity. \<^verbatim>\<open>resolveId\<close> is a function of the id alone (it
  reads no state and does no I/O, so the same id always gives the same answer): it
  answers with a resolved id exactly for the three symbolic ids of the registry, each with
  its own resolved id, and with \<^verbatim>\<open>undefined\<close> for every other id.
\<close>

theorem resolveId_stable:
  "(resolveId i = Some r \<longleftrightarrow>
      (i = id_str ids_css \<and> r = resolved ids_css)
      \<or> (i = id_str ids_inlineCva \<and> r = resolved ids_inlineCva)
      \<or> (i = id_str ids_compoundVariants \<and> r = resolved ids_compoundVariants))
   \<and> (i \<notin> {id_str ids_css, id_str ids_inlineCva, id_str ids_compoundVariants}
        \<longrightarrow> resolveId i = None)"
  by (auto simp: resolveId_def ids_values)

text \<open>The stylesheet id resolves to its NUL-prefixed form; a relative path is not ours.\<close>

theorem resolveId_stable_witness:
  "resolveId ''virtual:panda.css'' = Some (CHR 0x00 # ''virtual:panda.css'')
   \<and> ''./app.css'' \<notin> {id_str ids_css, id_str ids_inlineCva, id_str ids_compoundVariants}
   \<and> resolveId ''./app.css'' = None"
  using resolveId_stable [of "''virtual:panda.css''" "CHR 0x00 # ''virtual:panda.css''"]
    resolveId_stable [of "''./app.css''" "[]"]
  by (simp add: ids_values)

text \<open>
  Claim C10. When \<^verbatim>\<open>optimizeJs\<close> is given, \<^verbatim>\<open>resolveOptions\<close> returns it as it
  was given. The copy normalised in the local variable is not what is returned. In that
  copy \<^verbatim>\<open>pattern\<close>, \<^verbatim>\<open>recipe\<close>, \<^verbatim>\<open>jsx-factory\<close> and \<^verbatim>\<open>jsx-pattern\<close>, where
  the given object has no such key, take the value of \<^verbatim>\<open>cva\<close> before they fall back on
  \<^verbatim>\<open>'auto'\<close>; a key the given object has is copied with its value, also when that is
  \<^verbatim>\<open>undefined\<close>.
\<close>

theorem resolveOptions_optimizeJs:
  "optimizeJs opts = Some v \<Longrightarrow>
     optimizeJs (resolveOptions opts) = Some v
     \<and> (\<forall>k. v = OptKinds k \<longrightarrow>
           normalized_optimizeJs (optimizeJs opts) = OptKinds (normalized_kinds k)
           \<and> pattern (normalized_kinds k)
               = (case pattern k of Absent \<Rightarrow> Given (key_or (cva k) Auto) | p \<Rightarrow> p)
           \<and> recipe (normalized_kinds k)
               = (case recipe k of Absent \<Rightarrow> Given (key_or (cva k) Auto) | p \<Rightarrow> p)
           \<and> jsx_factory (normalized_kinds k)
               = (case jsx_factory k of Absent \<Rightarrow> Given (key_or (cva k) Auto) | p \<Rightarrow> p)
           \<and> jsx_pattern (normalized_kinds k)
               = (case jsx_pattern k of Absent \<Rightarrow> Given (key_or (cva k) Auto) | p \<Rightarrow> p))"
  by (auto simp: resolveOptions_def normalized_optimizeJs_def normalized_kinds_def
      spread_kinds_def nullish_def Let_def split: option.splits property.splits)

text \<open>
  With only \<^verbatim>\<open>cva: 'off'\<close> given, the normalised copy has \<^verbatim>\<open>pattern: 'off'\<close>, and
  the returned options still have the object as given, without a \<^verbatim>\<open>pattern\<close> key.
  With \<^verbatim>\<open>pattern: undefined\<close> given beside it, the copy has \<^verbatim>\<open>pattern: undefined\<close>
  and \<^verbatim>\<open>recipe: 'off'\<close>, and the returned options are again the object as given.
\<close>

theorem resolveOptions_optimizeJs_witness:
  "optimizeJs (empty_options\<lparr>optimizeJs := Some (OptKinds demo_kinds)\<rparr>)
     = Some (OptKinds demo_kinds)
   \<and> optimizeJs (resolveOptions (empty_options\<lparr>optimizeJs := Some (OptKinds demo_kinds)\<rparr>))
       = Some (OptKinds demo_kinds)
   \<and> pattern (normalized_kinds demo_kinds) = Given Off
   \<and> pattern demo_kinds = Absent
   \<and> optimizeJs (resolveOptions
         (empty_options\<lparr>optimizeJs := Some (OptKinds (demo_kinds\<lparr>pattern := Undefined\<rparr>))\<rparr>))
       = Some (OptKinds (demo_kinds\<lparr>pattern := Undefined\<rparr>))
   \<and> pattern (normalized_kinds (demo_kinds\<lparr>pattern := Undefined\<rparr>)) = Undefined
   \<and> recipe (normalized_kinds (demo_kinds\<lparr>pattern := Undefined\<rparr>)) = Given Off"
  using resolveOptions_optimizeJs
    [of "empty_options\<lparr>optimizeJs := Some (OptKinds demo_kinds)\<rparr>" "OptKinds demo_kinds"]
    resolveOptions_optimizeJs
    [of "empty_options\<lparr>optimizeJs := Some (OptKinds (demo_kinds\<lparr>pattern := Undefined\<rparr>))\<rparr>"
        "OptKinds (demo_kinds\<lparr>pattern := Undefined\<rparr>)"]
  by (simp add: demo_kinds_def key_or_def)

section \<open>Exactly-once initialisation\<close>

lemma init_idle: "initPromise st = Some p \<Longrightarrow> init H st = st"
  by (simp add: init_def)

lemma calls_while_pending:
  "initPromise (plugin s) = Some (Pending x) \<Longrightarrow>
     foldl (loop_step H) s (map Call ks) = s\<lparr>suspended := suspended s @ ks\<rparr>"
  by (induction ks arbitrary: s) (simp_all add: init_idle)




text \<open>
  When the load fails instead, the rejected promise is memoised as well: still one load,
  no context, and every caller, early or late, gets the error of that load.
\<close>

lemma calls_when_rejected:
  "initPromise (plugin s) = Some (Rejected e) \<Longrightarrow>
     foldl (loop_step H) s (map Call ks)
       = s\<lparr>returned := returned s @ map (\<lambda>k. (k, Inl e)) ks\<rparr>"
  by (induction ks arbitrary: s) (simp_all add: init_idle resume_def)

lemma getCtx_load_failure:
  assumes fresh: "initPromise st = None"
    and failed: "loadConfig H (nullish (cwd (options st)) []) (configPath (options st)) = Inl e"
    and some: "ks \<noteq> []"
  shows "trace (plugin (run_loop H st (map Call ks @ Settle # map Call ks')))
           = trace st @ [LoadConfig (nullish (cwd (options st)) []) (configPath (options st))]
         \<and> returned (run_loop H st (map Call ks @ Settle # map Call ks'))
             = map (\<lambda>k. (k, Inl e)) (ks @ ks')
         \<and> ctx_var (plugin (run_loop H st (map Call ks @ Settle # map Call ks'))) = ctx_var st"
proof -
  obtain k rest where ks: "ks = k # rest" using some by (cases ks) auto
  let ?c = "nullish (cwd (options st)) []" and ?f = "configPath (options st)"
  let ?st1 = "init H st"
  have st1: "?st1 = emit [LoadConfig ?c ?f] (st\<lparr>initPromise := Some (Pending (Inl e))\<rparr>)"
    using fresh failed by (simp add: init_def Let_def)
  have pend: "initPromise ?st1 = Some (Pending (Inl e))"
    by (simp add: st1 emit_def)
  let ?s1 = "\<lparr>plugin = ?st1, suspended = [k], returned = []\<rparr>"
  have first: "loop_step H \<lparr>plugin = st, suspended = [], returned = []\<rparr> (Call k) = ?s1"
    using pend by (simp add: Let_def)
  have waiting: "foldl (loop_step H) ?s1 (map Call rest) = ?s1\<lparr>suspended := [k] @ rest\<rparr>"
    using calls_while_pending [of ?s1 "Inl e" H rest] pend by simp
  let ?st2 = "settle H ?st1"
  have st2: "initPromise ?st2 = Some (Rejected e)" "ctx_var ?st2 = ctx_var st"
    "trace ?st2 = trace st @ [LoadConfig ?c ?f]"
    by (simp_all add: settle_def st1 emit_def Let_def)
  have res: "resume ?st2 = Inl e"
    using st2 by (simp add: resume_def)
  let ?s2 = "\<lparr>plugin = ?st2, suspended = [], returned = map (\<lambda>k. (k, Inl e)) ks\<rparr>"
  have settled: "loop_step H (?s1\<lparr>suspended := [k] @ rest\<rparr>) Settle = ?s2"
    using res by (simp add: Let_def ks)
  have late: "foldl (loop_step H) ?s2 (map Call ks')
           = ?s2\<lparr>returned := returned ?s2 @ map (\<lambda>k. (k, Inl e)) ks'\<rparr>"
    using calls_when_rejected [of ?s2 e H ks'] st2 by simp
  have "run_loop H st (map Call ks @ Settle # map Call ks')
          = ?s2\<lparr>returned := returned ?s2 @ map (\<lambda>k. (k, Inl e)) ks'\<rparr>"
    unfolding run_loop_def ks using first waiting settled late
    by (simp add: ks)
  then show ?thesis using st2 by simp
qed

section \<open>What obtaining the context changes\<close>

lemma getCtx_initialised:
  "initPromise st = Some Fulfilled \<Longrightarrow> ctx_var st = Some r \<Longrightarrow> getCtx H st = (st, Inr r)"
  by (simp add: getCtx_def init_def settle_def resume_def)

lemma getCtx_frame:
  "getCtx H st = (st1, res) \<Longrightarrow> options st1 = options st \<and> outfile_var st1 = outfile_var st"
  by (auto simp: getCtx_def init_def settle_def emit_def Let_def
      split: option.splits promise_state.splits sum.splits)

lemma getCtx_trace:
  "getCtx H st = (st1, res) \<Longrightarrow>
     \<exists>evs. trace st1 = trace st @ evs
       \<and> (\<forall>e \<in> set evs. (\<exists>c f. e = LoadConfig c f) \<or> (\<exists>r. e = CreateContext r))"
  by (auto simp: getCtx_def init_def settle_def emit_def Let_def
      split: option.splits promise_state.splits sum.splits)

lemma getCtx_writes:
  assumes "getCtx H st = (st1, res)"
  shows "filter is_WriteFile (trace st1) = filter is_WriteFile (trace st)"
proof -
  from getCtx_trace [OF assms] obtain evs where
    evs: "trace st1 = trace st @ evs"
      "\<forall>e \<in> set evs. (\<exists>c f. e = LoadConfig c f) \<or> (\<exists>r. e = CreateContext r)"
    by blast
  have "filter is_WriteFile evs = []"
    using evs(2) by (auto simp: filter_empty_conv)
  then show ?thesis using evs(1) by simp
qed

lemma getCtx_live:
  "ctx_live st \<Longrightarrow> getCtx H st = (st1, Inr r) \<Longrightarrow> \<exists>c. heap st1 r = Some c"
  by (auto simp: getCtx_def init_def settle_def resume_def emit_def ctx_live_def Let_def
      split: option.splits promise_state.splits sum.splits)

lemma getCtx_ok:
  assumes "getCtx H st = (st1, res)"
  shows "outfile_ok H st \<Longrightarrow> outfile_ok H st1" "ctx_live st \<Longrightarrow> ctx_live st1"
  using assms
  by (auto simp: outfile_ok_def ctx_live_def getCtx_def init_def settle_def emit_def Let_def
      split: option.splits promise_state.splits sum.splits)

lemma unpluginFactory_ok:
  "outfile_ok H (unpluginFactory H raw)" "ctx_live (unpluginFactory H raw)"
  "initPromise (unpluginFactory H raw) = None"
  by (simp_all add: outfile_ok_def ctx_live_def unpluginFactory_def Let_def)

lemma configResolved_ok:
  "outfile_ok H st \<Longrightarrow> outfile_ok H (configResolved H config st)"
  "ctx_live st \<Longrightarrow> ctx_live (configResolved H config st)"
  by (simp_all add: outfile_ok_def ctx_live_def configResolved_def Let_def)

lemma registry_resolved_distinct:
  "resolved ids_css \<noteq> resolved ids_inlineCva"
  "resolved ids_css \<noteq> resolved ids_compoundVariants"
  by (simp_all add: ids_values)

text \<open>The set the watcher holds is the set of the absolute forms of the configuration's
  path and dependencies, and its context is the one in \<^verbatim>\<open>_ctx\<close>.\<close>

lemma set_new_Set_aux:
  "set (foldl (\<lambda>acc x. if x \<in> set acc then acc else acc @ [x]) acc xs) = set acc \<union> set xs"
  by (induction xs arbitrary: acc) auto

lemma set_new_Set: "set (new_Set xs) = set xs"
  by (simp add: new_Set_def set_new_Set_aux)

lemma set_sources_of:
  "set (sources_of H c)
     = (\<lambda>f. ensureAbsolute H f (root c))
         ` ({path (engine_conf H (panda c))}
            \<union> set (nullish (dependencies (engine_conf H (panda c))) [])
            \<union> set (nullish (config_dependencies (engine_conf H (panda c))) []))"
  by (auto simp: sources_of_def set_new_Set Let_def)

lemma configureServer_watcher:
  assumes "configureServer H st = (st', Inr w)"
  shows "ctx_var st' = Some (w_ctx w)
         \<and> (\<exists>c. heap st' (w_ctx w) = Some c \<and> w_sources w = sources_of H c)"
  using assms
  by (auto simp: configureServer_def getCtx_def init_def settle_def resume_def emit_def
      deref_def Let_def
      split: option.splits promise_state.splits sum.splits prod.splits if_splits)

lemma load_writes:
  "filter is_WriteFile (trace (fst (load H st i))) = filter is_WriteFile (trace st)"
proof (cases "i = resolved ids_inlineCva \<or> i = resolved ids_compoundVariants
    \<or> i \<noteq> outfile_var st")
  case True
  then have "fst (load H st i) = st" by (auto simp: load_def)
  then show ?thesis by simp
next
  case False
  obtain st1 g where g: "getCtx H st = (st1, g)" by (cases "getCtx H st")
  have "trace (fst (load H st i)) = trace st1
          \<or> (\<exists>r. trace (fst (load H st i)) = trace st1 @ [CreateSheet r])"
    using False g by (auto simp: load_def deref_def emit_def split: sum.splits option.splits)
  then show ?thesis using getCtx_writes [OF g] by auto
qed

lemma configureServer_persists:
  assumes "getCtx H st = (st1, Inr r)" "heap st1 r = Some c"
    and "outfile_var st \<noteq> resolved ids_css"
    and "writeFile H (outfile_var st) (artifact H c (options st)) = None"
  shows "WriteFile (outfile_var st) (artifact H c (options st))
           \<in> set (trace (fst (configureServer H st)))"
proof -
  have fr: "options st1 = options st" "outfile_var st1 = outfile_var st"
    using getCtx_frame [OF assms(1)] by simp_all
  show ?thesis
    using assms fr
    by (auto simp: configureServer_def deref_def emit_def Let_def split: sum.splits)
qed

section \<open>The small host, evaluated\<close>

lemmas demo_defs =
  demo_host_def demo_conf_def demo_absolute_def demo_parse_def demo_outfile_options_def
  demo_virtual_options_def demo_transform_options_def empty_options_def
  demo_watcher_def demo_hmr_def

lemmas plugin_defs =
  unpluginFactory_def resolveOptions_def compute_outfile_def nullish_def or_string_def
  or_pattern_def truthy_pattern_def truthy_string_def truthy_optimizeJs_def
  normalized_optimizeJs_def getCtx_def init_def settle_def resume_def emit_def deref_def
  artifact_def user_transformed_def new_Set_def sources_of_def Let_def ids_values

lemma demo_host_sel:
  "writeFile demo_host p t = None"
  "ensureAbsolute demo_host = demo_absolute"
  "codegen demo_host e = Inr ''codegen done''"
  "isEmpty demo_host ps = (ps = [])"
  "engine_conf demo_host = fst"
  "parseSourceFile demo_host = demo_parse"
  "addSourceFile demo_host e i code = (fst e, (i, code) # filter (\<lambda>kv. fst kv \<noteq> i) (snd e))"
  by (simp_all add: demo_host_def)

lemma demo_ctx_sel:
  "root demo_ctx = ''/proj''"
  "files demo_ctx f = (if f = ''/proj/src/a.tsx'' then Some ''css({color: red})'' else None)"
  "panda demo_ctx = (demo_conf\<lparr>config_cwd := Some ''/proj''\<rparr>,
                     [(''/proj/src/a.tsx'', ''css({color: red})'')])"
  by (simp_all add: demo_ctx_def)

lemma demo_artifact: "artifact demo_host demo_ctx opts = ''css({color: red})''"
  by (simp add: artifact_def demo_ctx_def demo_host_def)

lemma demo_reload:
  "reloadContext demo_host demo_ctx
     = Inr (demo_ctx\<lparr>panda := (demo_conf\<lparr>config_cwd := Some ''/proj''\<rparr>, [])\<rparr>)"
  by (simp add: demo_host_def demo_ctx_def)

lemma demo_tracked_out_facts:
  "initPromise demo_tracked_out = Some Fulfilled"
  "ctx_var demo_tracked_out = Some 0"
  "heap demo_tracked_out 0 = Some demo_ctx"
  "outfile_var demo_tracked_out = ''/proj/out/panda.css''"
  "outfile (options demo_tracked_out) = Some ''/proj/out/panda.css''"
  "compute_outfile demo_host (options demo_tracked_out) = ''/proj/out/panda.css''"
  "trace demo_tracked_out
     = [LoadConfig ''/proj'' None, CreateContext 0,
        AddSourceFile 0 ''/proj/src/a.tsx'' ''css({color: red})'',
        ParseSourceFile 0 ''/proj/src/a.tsx'']"
  by (simp_all add: demo_tracked_out_def demo_fresh_out_def demo_ctx_def transform_hook_def
      plugin_defs demo_defs)

lemma demo_tracked_virtual_facts:
  "initPromise demo_tracked_virtual = Some Fulfilled"
  "ctx_var demo_tracked_virtual = Some 0"
  "heap demo_tracked_virtual 0 = Some demo_ctx"
  "outfile_var demo_tracked_virtual = resolved ids_css"
  "outfile (options demo_tracked_virtual) = None"
  "optimizeJs (options demo_tracked_virtual) = Some (OptBool False)"
  "transform (options demo_tracked_virtual) = None"
  by (simp_all add: demo_tracked_virtual_def demo_ctx_def transform_hook_def plugin_defs
      demo_defs)

lemma demo_served_facts:
  "initPromise demo_served = Some Fulfilled"
  "ctx_var demo_served = Some 0"
  "heap demo_served 0 = Some demo_ctx"
  "outfile_var demo_served = ''/proj/out/panda.css''"
  "snd (configureServer demo_host demo_tracked_out) = Inr demo_watcher"
  "trace demo_served
     = trace demo_tracked_out
         @ [CreateSheet 0, WriteFile ''/proj/out/panda.css'' ''css({color: red})'', Codegen 0,
            WatcherAdd ''/proj/panda.config.ts'', WatcherAdd ''/proj/theme.ts'']"
  by (simp_all add: demo_served_def demo_ctx_def configureServer_def
      demo_tracked_out_facts(1-5) plugin_defs demo_defs)

lemma demo_fresh_transform_facts:
  "snd (getCtx demo_host demo_fresh_transform) = Inr 0"
  "heap (fst (getCtx demo_host demo_fresh_transform)) 0 = Some demo_new_ctx"
  "trace (fst (getCtx demo_host demo_fresh_transform))
     = [LoadConfig ''/proj'' None, CreateContext 0]"
  "user_transformed (options demo_fresh_transform) ''const x = 1'' ''/proj/src/c.tsx''
     = ''css(); const x = 1''"
  by (simp_all add: demo_fresh_transform_def demo_new_ctx_def plugin_defs demo_defs)

lemma demo_getCtx:
  "getCtx demo_host demo_tracked_out = (demo_tracked_out, Inr 0)"
  "getCtx demo_host demo_tracked_virtual = (demo_tracked_virtual, Inr 0)"
  "getCtx demo_host demo_served = (demo_served, Inr 0)"
  by (rule getCtx_initialised, simp_all add: demo_tracked_out_facts demo_tracked_virtual_facts
      demo_served_facts)+

lemma demo_hot_trace:
  "trace (fst (handleHotUpdate demo_host demo_hmr (\<lambda>i. True) demo_tracked_out))
     = trace demo_tracked_out
         @ [InvalidateModule ''/proj/out/panda.css'' 7, CreateSheet 0,
            WriteFile ''/proj/out/panda.css'' ''css({color: red})'']"
  by (simp add: handleHotUpdate_def demo_getCtx demo_tracked_out_facts(3,4) demo_artifact
      deref_def emit_def Let_def demo_hmr_def demo_ctx_sel ids_values demo_host_sel)

lemma demo_change_trace:
  "trace (fst (on_change demo_host demo_watcher (\<lambda>i. True) 9 demo_served
                 ''/proj/panda.config.ts''))
     = trace demo_served @ [ReloadContext 0, InvalidateModule ''/proj/out/panda.css'' 9]"
  "ctx_var (fst (on_change demo_host demo_watcher (\<lambda>i. True) 9 demo_served
                   ''/proj/panda.config.ts'')) = Some 0"
  "initPromise (fst (on_change demo_host demo_watcher (\<lambda>i. True) 9 demo_served
                   ''/proj/panda.config.ts'')) = Some Fulfilled"
  by (simp_all add: on_change_def deref_def emit_def Let_def demo_served_facts demo_reload
      demo_watcher_def demo_host_sel demo_absolute_def demo_ctx_sel)

section \<open>Loading the artifact\<close>

text \<open>
  Claim C2, as the code has it. In a state whose \<^verbatim>\<open>outfile\<close> variable is what the
  options give, and in which the context can be obtained: when the \<^verbatim>\<open>outfile\<close> option is
  unset, \<^verbatim>\<open>load\<close> of the resolved id of the virtual stylesheet returns
  \<^verbatim>\<open>toCss(createSheet(), options)\<close> of the live context. When the option is set (to a
  path whose absolute form is none of the registry's resolved ids), \<^verbatim>\<open>load\<close> of the
  resolved virtual id returns \<^verbatim>\<open>undefined\<close>, and \<^verbatim>\<open>load\<close> of the absolute
  \<^verbatim>\<open>outfile\<close> path returns that text. \<^verbatim>\<open>load\<close> writes no file, for any id; the text
  is written to the \<^verbatim>\<open>outfile\<close> path by \<^verbatim>\<open>configureServer\<close>, when the write succeeds.
\<close>

theorem load_artifact:
  assumes inv: "outfile_ok H st"
    and ctx: "getCtx H st = (st1, Inr r)" "heap st1 r = Some c"
  shows "(\<not> truthy_string (outfile (options st)) \<longrightarrow>
            load H st (resolved ids_css)
              = (emit [CreateSheet r] st1, Inr (Some (artifact H c (options st)))))
         \<and> (truthy_string (outfile (options st))
              \<and> outfile_var st \<notin> {resolved ids_css, resolved ids_inlineCva,
                                     resolved ids_compoundVariants} \<longrightarrow>
              load H st (resolved ids_css) = (st, Inr None)
              \<and> load H st (outfile_var st)
                  = (emit [CreateSheet r] st1, Inr (Some (artifact H c (options st))))
              \<and> (writeFile H (outfile_var st) (artifact H c (options st)) = None \<longrightarrow>
                   WriteFile (outfile_var st) (artifact H c (options st))
                     \<in> set (trace (fst (configureServer H st)))))
         \<and> filter is_WriteFile (trace (fst (load H st i))) = filter is_WriteFile (trace st)"
proof -
  have opts: "options st1 = options st" using getCtx_frame [OF ctx(1)] by simp
  have unset: "\<not> truthy_string (outfile (options st)) \<Longrightarrow> outfile_var st = resolved ids_css"
    using inv
    by (auto simp: outfile_ok_def compute_outfile_def truthy_string_def split: option.splits)
  have loads: "(\<not> truthy_string (outfile (options st)) \<longrightarrow>
            load H st (resolved ids_css)
              = (emit [CreateSheet r] st1, Inr (Some (artifact H c (options st)))))
         \<and> (truthy_string (outfile (options st))
              \<and> outfile_var st \<notin> {resolved ids_css, resolved ids_inlineCva,
                                     resolved ids_compoundVariants} \<longrightarrow>
              load H st (resolved ids_css) = (st, Inr None)
              \<and> load H st (outfile_var st)
                  = (emit [CreateSheet r] st1, Inr (Some (artifact H c (options st)))))"
    using ctx opts unset registry_resolved_distinct
    by (auto simp: load_def deref_def)
  show ?thesis
    using loads load_writes [of H st i] configureServer_persists [OF ctx]
    by simp
qed

text \<open>
  On the small host: without an output file the virtual id loads the stylesheet; with
  \<^verbatim>\<open>/proj/out/panda.css\<close> as output file the virtual id loads nothing, the path loads
  the stylesheet, and the start of the server writes it.
\<close>

theorem load_artifact_witness:
  "outfile_ok demo_host demo_tracked_virtual
   \<and> getCtx demo_host demo_tracked_virtual = (demo_tracked_virtual, Inr 0)
   \<and> heap demo_tracked_virtual 0 = Some demo_ctx
   \<and> \<not> truthy_string (outfile (options demo_tracked_virtual))
   \<and> snd (load demo_host demo_tracked_virtual (resolved ids_css))
       = Inr (Some ''css({color: red})'')
   \<and> outfile_ok demo_host demo_tracked_out
   \<and> getCtx demo_host demo_tracked_out = (demo_tracked_out, Inr 0)
   \<and> truthy_string (outfile (options demo_tracked_out))
   \<and> outfile_var demo_tracked_out
        \<notin> {resolved ids_css, resolved ids_inlineCva, resolved ids_compoundVariants}
   \<and> snd (load demo_host demo_tracked_out (resolved ids_css)) = Inr None
   \<and> snd (load demo_host demo_tracked_out ''/proj/out/panda.css'')
       = Inr (Some ''css({color: red})'')
   \<and> writeFile demo_host ''/proj/out/panda.css'' ''css({color: red})'' = None
   \<and> WriteFile ''/proj/out/panda.css'' ''css({color: red})''
        \<in> set (trace (fst (configureServer demo_host demo_tracked_out)))"
proof -
  have cv: "compute_outfile demo_host (options demo_tracked_virtual) = resolved ids_css"
    by (simp add: demo_tracked_virtual_facts compute_outfile_def)
  have vi: "outfile_ok demo_host demo_tracked_virtual"
    by (simp add: outfile_ok_def cv demo_tracked_virtual_facts)
  have ti: "outfile_ok demo_host demo_tracked_out"
    by (simp add: outfile_ok_def demo_tracked_out_facts)
  show ?thesis
    using load_artifact [OF vi demo_getCtx(2) demo_tracked_virtual_facts(3)]
      load_artifact [OF ti demo_getCtx(1) demo_tracked_out_facts(3)] vi ti
    by (simp add: demo_getCtx demo_artifact demo_tracked_virtual_facts
        demo_tracked_out_facts(1-6) truthy_string_def ids_values demo_host_sel)
qed

text \<open>
  The second half of C2 as it was stated does not hold. With the output file
  \<^verbatim>\<open>/proj/out/panda.css\<close> configured, \<^verbatim>\<open>load\<close> of the resolved virtual id returns
  \<^verbatim>\<open>undefined\<close> and leaves no event; \<^verbatim>\<open>load\<close> of the output path returns the
  stylesheet and only recomputes it: no file is written by either call.
\<close>

theorem load_outfile_counterexample:
  "outfile (options demo_tracked_out) = Some ''/proj/out/panda.css''
   \<and> snd (load demo_host demo_tracked_out (resolved ids_css)) = Inr None
   \<and> trace (fst (load demo_host demo_tracked_out (resolved ids_css))) = trace demo_tracked_out
   \<and> snd (load demo_host demo_tracked_out ''/proj/out/panda.css'')
       = Inr (Some ''css({color: red})'')
   \<and> trace (fst (load demo_host demo_tracked_out ''/proj/out/panda.css''))
       = trace demo_tracked_out @ [CreateSheet 0]"
  by (simp add: load_def demo_getCtx demo_tracked_out_facts(3,4,5) demo_artifact deref_def
      emit_def ids_values)

section \<open>Transform bookkeeping\<close>

text \<open>
  The code handed to the engine, case by case: the original code without a callback, and
  when the callback returns nothing or the empty string; the string a callback returns;
  the \<^verbatim>\<open>code\<close> of the object a callback returns.
\<close>

lemma user_transformed_cases:
  "transform opts = None \<Longrightarrow> user_transformed opts code i = code"
  "transform opts = Some f \<Longrightarrow> f i code = TNone \<Longrightarrow> user_transformed opts code i = code"
  "transform opts = Some f \<Longrightarrow> f i code = TString [] \<Longrightarrow> user_transformed opts code i = code"
  "transform opts = Some f \<Longrightarrow> f i code = TString s \<Longrightarrow> s \<noteq> [] \<Longrightarrow>
     user_transformed opts code i = s"
  "transform opts = Some f \<Longrightarrow> f i code = TObject t m \<Longrightarrow> user_transformed opts code i = t"
  by (simp_all add: user_transformed_def)

text \<open>
  Claim C7, pre-transform bookkeeping. Let \<open>tcode\<close> be what the user transform makes of
  the code: the string the callback returns for the file id and the code, or the
  \<^verbatim>\<open>code\<close> of the object it returns, and the original code when there is no callback
  or it returns nothing or the empty string. When the context can be obtained and the
  parse of \<open>tcode\<close>, registered under the file id, reports styling usage,
  \<^verbatim>\<open>transform\<close> leaves the context object with \<^verbatim>\<open>files\<close> mapping the file id to
  the original code, and what the engine has been handed under that id is \<open>tcode\<close>.
\<close>

theorem transform_records_original:
  assumes "getCtx H st = (st1, Inr r)" "heap st1 r = Some c"
    and "tcode = (case transform (options st) of
                    None \<Rightarrow> code
                  | Some f \<Rightarrow>
                      (case f i code of
                         TNone \<Rightarrow> code
                       | TString s \<Rightarrow> if s = [] then code else s
                       | TObject t m \<Rightarrow> t))"
    and "parseSourceFile H (addSourceFile H (panda c) i tcode) i = (e2, Some p)"
    and "\<not> isEmpty H p"
  shows "heap (fst (transform_hook H st code i)) r
           = Some (c\<lparr>panda := e2, files := (files c)(i \<mapsto> code)\<rparr>)
         \<and> trace (fst (transform_hook H st code i))
             = trace st1 @ [AddSourceFile r i tcode, ParseSourceFile r i]"
proof -
  have opts: "options st1 = options st" using getCtx_frame [OF assms(1)] by simp
  have tcode: "user_transformed (options st) code i = tcode"
    using assms(3)
    by (auto simp: user_transformed_def split: option.splits transform_result.splits)
  show ?thesis using assms(1,2,4,5) opts tcode
    by (auto simp: transform_hook_def deref_def emit_def Let_def split: option.splits)
qed

text \<open>
  With a user transform that returns an object whose code has a styling call in front,
  the engine receives that code and \<^verbatim>\<open>files\<close> keeps what the author wrote.
\<close>

theorem transform_records_original_witness:
  "getCtx demo_host demo_fresh_transform = (fst (getCtx demo_host demo_fresh_transform), Inr 0)
   \<and> heap (fst (getCtx demo_host demo_fresh_transform)) 0 = Some demo_new_ctx
   \<and> ''css(); const x = 1''
       = (case transform (options demo_fresh_transform) of
            None \<Rightarrow> ''const x = 1''
          | Some f \<Rightarrow>
              (case f ''/proj/src/c.tsx'' ''const x = 1'' of
                 TNone \<Rightarrow> ''const x = 1''
               | TString s \<Rightarrow> if s = [] then ''const x = 1'' else s
               | TObject t m \<Rightarrow> t))
   \<and> parseSourceFile demo_host
        (addSourceFile demo_host (panda demo_new_ctx) ''/proj/src/c.tsx'' ''css(); const x = 1'')
        ''/proj/src/c.tsx''
       = ((demo_conf\<lparr>config_cwd := Some ''/proj''\<rparr>,
           [(''/proj/src/c.tsx'', ''css(); const x = 1'')]), Some [''css(); const x = 1''])
   \<and> \<not> isEmpty demo_host [''css(); const x = 1'']
   \<and> map_option (\<lambda>c. files c ''/proj/src/c.tsx'')
        (heap (fst (transform_hook demo_host demo_fresh_transform ''const x = 1''
                      ''/proj/src/c.tsx'')) 0)
       = Some (Some ''const x = 1'')
   \<and> map_option (\<lambda>c. snd (panda c))
        (heap (fst (transform_hook demo_host demo_fresh_transform ''const x = 1''
                      ''/proj/src/c.tsx'')) 0)
       = Some [(''/proj/src/c.tsx'', ''css(); const x = 1'')]
   \<and> trace (fst (transform_hook demo_host demo_fresh_transform ''const x = 1''
                     ''/proj/src/c.tsx''))
       = [LoadConfig ''/proj'' None, CreateContext 0,
          AddSourceFile 0 ''/proj/src/c.tsx'' ''css(); const x = 1'',
          ParseSourceFile 0 ''/proj/src/c.tsx'']"
proof -
  have g: "getCtx demo_host demo_fresh_transform
             = (fst (getCtx demo_host demo_fresh_transform), Inr 0)"
    using demo_fresh_transform_facts(1) by (simp add: prod_eq_iff)
  have t: "''css(); const x = 1''
       = (case transform (options demo_fresh_transform) of
            None \<Rightarrow> ''const x = 1''
          | Some f \<Rightarrow>
              (case f ''/proj/src/c.tsx'' ''const x = 1'' of
                 TNone \<Rightarrow> ''const x = 1''
               | TString s \<Rightarrow> if s = [] then ''const x = 1'' else s
               | TObject t m \<Rightarrow> t))"
    by (simp add: demo_fresh_transform_def unpluginFactory_def resolveOptions_def
        demo_transform_options_def empty_options_def nullish_def Let_def)
  have p: "parseSourceFile demo_host
        (addSourceFile demo_host (panda demo_new_ctx) ''/proj/src/c.tsx'' ''css(); const x = 1'')
        ''/proj/src/c.tsx''
       = ((demo_conf\<lparr>config_cwd := Some ''/proj''\<rparr>,
           [(''/proj/src/c.tsx'', ''css(); const x = 1'')]), Some [''css(); const x = 1''])"
    by (simp add: demo_host_sel demo_parse_def demo_new_ctx_def)
  have e: "\<not> isEmpty demo_host [''css(); const x = 1'']" by (simp add: demo_host_sel)
  show ?thesis
    using transform_records_original [OF g demo_fresh_transform_facts(2) t p e] g p e
    apply (simp add: demo_fresh_transform_facts(1,2,3) demo_new_ctx_def)
    using t by simp
qed

text \<open>
  Claim C8, as the code has it. When the parse of the registered code yields no result, or
  a result without styling usage, \<^verbatim>\<open>transform\<close> changes nothing but the engine inside
  the context object, which has been handed the code under the file id and has parsed it:
  \<^verbatim>\<open>files\<close>, \<^verbatim>\<open>_ctx\<close> and every other variable are as they were once the context
  was obtained. When \<^verbatim>\<open>optimizeJs\<close> is falsy the hook returns \<^verbatim>\<open>null\<close>.
\<close>

theorem transform_parse_skip:
  assumes "getCtx H st = (st1, Inr r)" "heap st1 r = Some c"
    and "parseSourceFile H (addSourceFile H (panda c) i (user_transformed (options st) code i)) i
           = (e2, pr)"
    and "case pr of None \<Rightarrow> True | Some p \<Rightarrow> isEmpty H p"
  shows "fst (transform_hook H st code i)
           = emit [AddSourceFile r i (user_transformed (options st) code i), ParseSourceFile r i]
               (st1\<lparr>heap := (heap st1)(r \<mapsto> c\<lparr>panda := e2\<rparr>)\<rparr>)
         \<and> (\<not> truthy_optimizeJs (optimizeJs (options st)) \<longrightarrow>
               snd (transform_hook H st code i) = Inr None)"
proof -
  have opts: "options st1 = options st" using getCtx_frame [OF assms(1)] by simp
  show ?thesis using assms opts
    by (auto simp: transform_hook_def deref_def emit_def Let_def truthy_optimizeJs_def
        split: option.splits)
qed

text \<open>A file without styling usage, with the optimisation switched off: \<^verbatim>\<open>null\<close>, and
  \<^verbatim>\<open>files\<close> as before.\<close>

theorem transform_parse_skip_witness:
  "getCtx demo_host demo_tracked_virtual = (demo_tracked_virtual, Inr 0)
   \<and> heap demo_tracked_virtual 0 = Some demo_ctx
   \<and> parseSourceFile demo_host
        (addSourceFile demo_host (panda demo_ctx) ''/proj/src/b.ts''
           (user_transformed (options demo_tracked_virtual) ''const x = 1'' ''/proj/src/b.ts''))
        ''/proj/src/b.ts''
       = ((demo_conf\<lparr>config_cwd := Some ''/proj''\<rparr>,
           [(''/proj/src/b.ts'', ''const x = 1''),
            (''/proj/src/a.tsx'', ''css({color: red})'')]), Some [])
   \<and> isEmpty demo_host []
   \<and> \<not> truthy_optimizeJs (optimizeJs (options demo_tracked_virtual))
   \<and> snd (transform_hook demo_host demo_tracked_virtual ''const x = 1'' ''/proj/src/b.ts'')
       = Inr None
   \<and> map_option files
        (heap (fst (transform_hook demo_host demo_tracked_virtual ''const x = 1''
                      ''/proj/src/b.ts'')) 0)
       = Some (files demo_ctx)"
proof -
  have p: "parseSourceFile demo_host
        (addSourceFile demo_host (panda demo_ctx) ''/proj/src/b.ts''
           (user_transformed (options demo_tracked_virtual) ''const x = 1'' ''/proj/src/b.ts''))
        ''/proj/src/b.ts''
       = ((demo_conf\<lparr>config_cwd := Some ''/proj''\<rparr>,
           [(''/proj/src/b.ts'', ''const x = 1''),
            (''/proj/src/a.tsx'', ''css({color: red})'')]), Some [])"
    by (simp add: user_transformed_def demo_tracked_virtual_facts(7) demo_host_sel
        demo_parse_def demo_ctx_sel)
  have e: "case Some [] of None \<Rightarrow> True | Some p \<Rightarrow> isEmpty demo_host p"
    by (simp add: demo_host_sel)
  have o: "\<not> truthy_optimizeJs (optimizeJs (options demo_tracked_virtual))"
    by (simp add: demo_tracked_virtual_facts(6) truthy_optimizeJs_def)
  show ?thesis
    using transform_parse_skip [OF demo_getCtx(2) demo_tracked_virtual_facts(3) p e] p o
    by (simp add: demo_getCtx(2) demo_tracked_virtual_facts(3) demo_host_sel emit_def)
qed

text \<open>
  C8 as it was stated, with no side effect besides the result, does not hold: the
  transform of a file without styling usage, with the optimisation switched off, returns
  \<^verbatim>\<open>null\<close> and leaves the file in the engine's registry of source files, where it was
  not before.
\<close>

theorem transform_side_effect_counterexample:
  "optimizeJs (options demo_tracked_virtual) = Some (OptBool False)
   \<and> snd (transform_hook demo_host demo_tracked_virtual ''const x = 1'' ''/proj/src/b.ts'')
       = Inr None
   \<and> map_option (\<lambda>c. snd (panda c)) (heap demo_tracked_virtual 0)
       = Some [(''/proj/src/a.tsx'', ''css({color: red})'')]
   \<and> map_option (\<lambda>c. snd (panda c))
        (heap (fst (transform_hook demo_host demo_tracked_virtual ''const x = 1''
                      ''/proj/src/b.ts'')) 0)
       = Some [(''/proj/src/b.ts'', ''const x = 1''),
               (''/proj/src/a.tsx'', ''css({color: red})'')]"
  by (simp add: transform_hook_def demo_getCtx(2) demo_tracked_virtual_facts deref_def
      user_transformed_def demo_host_sel demo_parse_def demo_ctx_sel emit_def Let_def
      truthy_optimizeJs_def)

section \<open>Changes of files\<close>

text \<open>
  Claim C3, as the code has it. Whenever \<^verbatim>\<open>handleHotUpdate\<close> recomputes the artifact,
  it has called \<^verbatim>\<open>invalidateModule\<close> first: the events it adds are the invalidation,
  then the recomputation, then (when the write succeeds) the write. Whenever the
  \<^verbatim>\<open>change\<close> callback of the watcher invalidates, it does so after the reload of the
  context has completed, and it neither recomputes nor writes.
\<close>

theorem hot_update_order:
  "(getCtx H st = (st1, g) \<and> handleHotUpdate H hmr graph st = (st', res)
      \<and> trace st' = trace st1 @ evs \<and> CreateSheet q \<in> set evs
    \<longrightarrow> (\<exists>tl. evs = InvalidateModule (outfile_var st) (timestamp hmr) # CreateSheet q # tl
              \<and> (tl = [] \<or> (\<exists>t. tl = [WriteFile (outfile_var st) t]))))
   \<and> (on_change H w graph now sw f = (sw', res') \<and> trace sw' = trace sw @ evs'
        \<and> InvalidateModule i t \<in> set evs'
      \<longrightarrow> evs' = [ReloadContext (w_ctx w), InvalidateModule (outfile_var sw) now])"
proof (intro conjI impI)
  assume a: "getCtx H st = (st1, g) \<and> handleHotUpdate H hmr graph st = (st', res)
      \<and> trace st' = trace st1 @ evs \<and> CreateSheet q \<in> set evs"
  then have of1: "outfile_var st1 = outfile_var st" using getCtx_frame by blast
  from a of1
  show "\<exists>tl. evs = InvalidateModule (outfile_var st) (timestamp hmr) # CreateSheet q # tl
              \<and> (tl = [] \<or> (\<exists>t. tl = [WriteFile (outfile_var st) t]))"
    by (auto simp: handleHotUpdate_def deref_def emit_def Let_def
        split: sum.splits if_splits option.splits)
next
  assume "on_change H w graph now sw f = (sw', res') \<and> trace sw' = trace sw @ evs'
        \<and> InvalidateModule i t \<in> set evs'"
  then show "evs' = [ReloadContext (w_ctx w), InvalidateModule (outfile_var sw) now]"
    by (auto simp: on_change_def deref_def emit_def Let_def
        split: sum.splits if_splits option.splits)
qed

text \<open>A hot update of the tracked file with an output file, and a change of the
  configuration file seen by the watcher.\<close>

theorem hot_update_order_witness:
  "getCtx demo_host demo_tracked_out = (demo_tracked_out, Inr 0)
   \<and> trace (fst (handleHotUpdate demo_host demo_hmr (\<lambda>i. True) demo_tracked_out))
       = trace demo_tracked_out
           @ [InvalidateModule ''/proj/out/panda.css'' 7, CreateSheet 0,
              WriteFile ''/proj/out/panda.css'' ''css({color: red})'']
   \<and> CreateSheet 0 \<in> set [InvalidateModule ''/proj/out/panda.css'' 7, CreateSheet 0,
              WriteFile ''/proj/out/panda.css'' ''css({color: red})'']
   \<and> outfile_var demo_tracked_out = ''/proj/out/panda.css'' \<and> timestamp demo_hmr = 7
   \<and> trace (fst (on_change demo_host demo_watcher (\<lambda>i. True) 9 demo_served
                     ''/proj/panda.config.ts''))
       = trace demo_served @ [ReloadContext 0, InvalidateModule ''/proj/out/panda.css'' 9]
   \<and> InvalidateModule ''/proj/out/panda.css'' 9
        \<in> set [ReloadContext 0, InvalidateModule ''/proj/out/panda.css'' 9]
   \<and> w_ctx demo_watcher = 0 \<and> outfile_var demo_served = ''/proj/out/panda.css''"
  using hot_update_order
    [where H = demo_host and st = demo_tracked_out and ?st1.0 = demo_tracked_out
       and g = "Inr 0" and hmr = demo_hmr and graph = "\<lambda>i. True"
       and st' = "fst (handleHotUpdate demo_host demo_hmr (\<lambda>i. True) demo_tracked_out)"
       and res = "snd (handleHotUpdate demo_host demo_hmr (\<lambda>i. True) demo_tracked_out)"
       and evs = "[InvalidateModule ''/proj/out/panda.css'' 7, CreateSheet 0,
              WriteFile ''/proj/out/panda.css'' ''css({color: red})'']"
       and q = 0 and w = demo_watcher and now = 9 and sw = demo_served
       and f = "''/proj/panda.config.ts''"
       and sw' = "fst (on_change demo_host demo_watcher (\<lambda>i. True) 9 demo_served
                     ''/proj/panda.config.ts'')"
       and res' = "snd (on_change demo_host demo_watcher (\<lambda>i. True) 9 demo_served
                     ''/proj/panda.config.ts'')"
       and evs' = "[ReloadContext 0, InvalidateModule ''/proj/out/panda.css'' 9]"
       and i = "''/proj/out/panda.css''" and t = 9]
    demo_getCtx(1) demo_hot_trace demo_change_trace(1)
  by (simp add: demo_tracked_out_facts demo_served_facts demo_hmr_def demo_watcher_def)

text \<open>
  The order C3 states, invalidation after the write, is not the order of the code: in the
  hot update of the tracked file the module of the output file is invalidated first, and
  the stylesheet is recomputed and written after that.
\<close>

theorem hot_update_order_counterexample:
  "outfile_var demo_tracked_out = ''/proj/out/panda.css''
   \<and> files demo_ctx (hmr_file demo_hmr) = Some ''css({color: red})''
   \<and> trace (fst (handleHotUpdate demo_host demo_hmr (\<lambda>i. True) demo_tracked_out))
       = trace demo_tracked_out
           @ [InvalidateModule ''/proj/out/panda.css'' 7, CreateSheet 0,
              WriteFile ''/proj/out/panda.css'' ''css({color: red})'']"
  by (simp add: handleHotUpdate_def demo_getCtx demo_tracked_out_facts(3,4) demo_artifact
      deref_def emit_def Let_def demo_hmr_def demo_ctx_sel ids_values demo_host_sel)

text \<open>
  Claim C4, as the code has it. For a change of a file whose absolute form is in the set
  the watcher holds, and when \<^verbatim>\<open>reloadContext()\<close> completes: the context object the
  watcher holds has been reloaded in place, the module of \<^verbatim>\<open>outfile\<close> is invalidated
  after that when the module graph has one, and \<^verbatim>\<open>_ctx\<close> refers to the same context as
  before.
\<close>

theorem on_change_dependency:
  assumes "heap st (w_ctx w) = Some c"
    and "ensureAbsolute H f (root c) \<in> set (w_sources w)"
    and "reloadContext H c = Inr c'"
  shows "on_change H w graph now st f
           = (emit (ReloadContext (w_ctx w)
                      # (if graph (outfile_var st)
                         then [InvalidateModule (outfile_var st) now] else []))
                (st\<lparr>heap := (heap st)(w_ctx w \<mapsto> c')\<rparr>), Inr ())
         \<and> ctx_var (fst (on_change H w graph now st f)) = ctx_var st"
  using assms by (simp add: on_change_def deref_def emit_def Let_def)

text \<open>The configuration file of the small host changes while its server runs.\<close>

theorem on_change_dependency_witness:
  "heap demo_served (w_ctx demo_watcher) = Some demo_ctx
   \<and> ensureAbsolute demo_host ''/proj/panda.config.ts'' (root demo_ctx)
        \<in> set (w_sources demo_watcher)
   \<and> reloadContext demo_host demo_ctx
       = Inr (demo_ctx\<lparr>panda := (demo_conf\<lparr>config_cwd := Some ''/proj''\<rparr>, [])\<rparr>)
   \<and> trace (fst (on_change demo_host demo_watcher (\<lambda>i. True) 9 demo_served
                     ''/proj/panda.config.ts''))
       = trace demo_served @ [ReloadContext 0, InvalidateModule ''/proj/out/panda.css'' 9]
   \<and> ctx_var (fst (on_change demo_host demo_watcher (\<lambda>i. True) 9 demo_served
                     ''/proj/panda.config.ts'')) = ctx_var demo_served"
proof -
  have h: "heap demo_served (w_ctx demo_watcher) = Some demo_ctx"
    by (simp add: demo_served_facts demo_watcher_def)
  have m: "ensureAbsolute demo_host ''/proj/panda.config.ts'' (root demo_ctx)
             \<in> set (w_sources demo_watcher)"
    by (simp add: demo_host_sel demo_absolute_def demo_watcher_def demo_ctx_sel)
  show ?thesis
    using on_change_dependency [OF h m demo_reload, of "\<lambda>i. True" 9] h m demo_reload
    by (simp add: emit_def demo_served_facts demo_watcher_def)
qed

text \<open>
  The change of identity C4 states does not happen: after the change of the configuration
  file, reloaded and invalidated, \<^verbatim>\<open>getCtx\<close> gives the reference it gave before.
\<close>

theorem on_change_identity_counterexample:
  "''/proj/panda.config.ts'' \<in> set (w_sources demo_watcher)
   \<and> snd (getCtx demo_host demo_served) = Inr 0
   \<and> snd (getCtx demo_host (fst (on_change demo_host demo_watcher (\<lambda>i. True) 9 demo_served
                                    ''/proj/panda.config.ts''))) = Inr 0
   \<and> ctx_var demo_served = Some 0
   \<and> ctx_var (fst (on_change demo_host demo_watcher (\<lambda>i. True) 9 demo_served
                     ''/proj/panda.config.ts'')) = Some 0
   \<and> trace (fst (on_change demo_host demo_watcher (\<lambda>i. True) 9 demo_served
                     ''/proj/panda.config.ts''))
       = trace demo_served @ [ReloadContext 0, InvalidateModule ''/proj/out/panda.css'' 9]"
proof -
  have m: "''/proj/panda.config.ts'' \<in> set (w_sources demo_watcher)"
    by (simp add: demo_watcher_def)
  show ?thesis
    using getCtx_initialised [OF demo_change_trace(3) demo_change_trace(2), of demo_host] m
    by (simp add: demo_getCtx demo_change_trace demo_served_facts(2))
qed

text \<open>
  Claim C5, as the code has it. In a running plugin (the context initialised), a hot update
  for a file that is in \<^verbatim>\<open>files\<close> and is not \<^verbatim>\<open>outfile\<close> itself, when the module
  graph has a module for \<^verbatim>\<open>outfile\<close>: that module is invalidated, then the artifact is
  recomputed and written when \<^verbatim>\<open>outfile\<close> is a real path (the write event is there when
  the write succeeds), and \<^verbatim>\<open>_ctx\<close> and the context objects are as before. The set of
  dependencies is not consulted.
\<close>

theorem handleHotUpdate_tracked:
  assumes "initPromise st = Some Fulfilled" "ctx_var st = Some r" "heap st r = Some c"
    and "files c (hmr_file hmr) \<noteq> None"
    and "hmr_file hmr \<noteq> outfile_var st"
    and "graph (outfile_var st)"
  shows "ctx_var (fst (handleHotUpdate H hmr graph st)) = ctx_var st
         \<and> heap (fst (handleHotUpdate H hmr graph st)) = heap st
         \<and> trace (fst (handleHotUpdate H hmr graph st))
             = trace st @ InvalidateModule (outfile_var st) (timestamp hmr)
                 # (if outfile_var st \<noteq> resolved ids_css
                    then CreateSheet r
                      # (case writeFile H (outfile_var st) (artifact H c (options st)) of
                           None \<Rightarrow> [WriteFile (outfile_var st) (artifact H c (options st))]
                         | Some e \<Rightarrow> [])
                    else [])"
  using assms getCtx_initialised [of st r H]
  by (auto simp: handleHotUpdate_def deref_def emit_def Let_def split: option.splits)

text \<open>The tracked file of the small host changes, and the module graph knows the output
  file.\<close>

theorem handleHotUpdate_tracked_witness:
  "initPromise demo_tracked_out = Some Fulfilled \<and> ctx_var demo_tracked_out = Some 0
   \<and> heap demo_tracked_out 0 = Some demo_ctx
   \<and> files demo_ctx (hmr_file demo_hmr) \<noteq> None
   \<and> hmr_file demo_hmr \<noteq> outfile_var demo_tracked_out
   \<and> ctx_var (fst (handleHotUpdate demo_host demo_hmr (\<lambda>i. True) demo_tracked_out)) = Some 0
   \<and> trace (fst (handleHotUpdate demo_host demo_hmr (\<lambda>i. True) demo_tracked_out))
       = trace demo_tracked_out
           @ [InvalidateModule ''/proj/out/panda.css'' 7, CreateSheet 0,
              WriteFile ''/proj/out/panda.css'' ''css({color: red})'']"
proof -
  have f: "files demo_ctx (hmr_file demo_hmr) \<noteq> None"
    by (simp add: demo_ctx_sel demo_hmr_def)
  have o: "hmr_file demo_hmr \<noteq> outfile_var demo_tracked_out"
    by (simp add: demo_tracked_out_facts demo_hmr_def)
  show ?thesis
    using handleHotUpdate_tracked
      [OF demo_tracked_out_facts(1) demo_tracked_out_facts(2) demo_tracked_out_facts(3) f o,
        of "\<lambda>i. True" demo_host] f o
    by (simp add: demo_tracked_out_facts(1,2,3,4) demo_artifact demo_host_sel
        ids_values demo_hmr_def)
qed

text \<open>
  C5 as it was stated does not hold where the module graph has no module for the output
  file: the tracked file, which is not a dependency, changes, an output file is
  configured, and the hot update neither invalidates nor writes.
\<close>

theorem handleHotUpdate_guard_counterexample:
  "files demo_ctx (hmr_file demo_hmr) = Some ''css({color: red})''
   \<and> heap demo_tracked_out 0 = Some demo_ctx
   \<and> hmr_file demo_hmr \<notin> set (sources_of demo_host demo_ctx)
   \<and> outfile (options demo_tracked_out) = Some ''/proj/out/panda.css''
   \<and> trace (fst (handleHotUpdate demo_host demo_hmr (\<lambda>i. False) demo_tracked_out))
       = trace demo_tracked_out"
  by (simp add: handleHotUpdate_def demo_getCtx demo_tracked_out_facts(3,4,5) deref_def
      demo_hmr_def demo_ctx_sel sources_of_def new_Set_def
      demo_host_sel demo_conf_def demo_absolute_def nullish_def)

text \<open>
  Claim C6, irrelevant-change no-op. In a running plugin, for a file whose absolute form is
  not in the set the watcher holds and which is not in \<^verbatim>\<open>files\<close>, the \<^verbatim>\<open>change\<close>
  callback and \<^verbatim>\<open>handleHotUpdate\<close> both return with the state as it was: no reload, no
  recomputation, no write and no invalidation.
\<close>

theorem irrelevant_change_noop:
  assumes "initPromise st = Some Fulfilled" "ctx_var st = Some r" "heap st r = Some c"
    and "w_ctx w = r"
    and "ensureAbsolute H f (root c) \<notin> set (w_sources w)"
    and "files c f = None"
  shows "on_change H w graph now st f = (st, Inr ())
         \<and> handleHotUpdate H \<lparr>hmr_file = f, timestamp = t\<rparr> graph st = (st, Inr ())"
  using assms getCtx_initialised [of st r H]
  by (simp add: on_change_def handleHotUpdate_def deref_def Let_def)

text \<open>A stylesheet that was never transformed and is no dependency changes.\<close>

theorem irrelevant_change_noop_witness:
  "initPromise demo_served = Some Fulfilled \<and> ctx_var demo_served = Some 0
   \<and> heap demo_served 0 = Some demo_ctx \<and> w_ctx demo_watcher = 0
   \<and> ensureAbsolute demo_host ''/proj/styles/b.css'' (root demo_ctx)
        \<notin> set (w_sources demo_watcher)
   \<and> files demo_ctx ''/proj/styles/b.css'' = None
   \<and> on_change demo_host demo_watcher (\<lambda>i. True) 9 demo_served ''/proj/styles/b.css''
       = (demo_served, Inr ())
   \<and> handleHotUpdate demo_host \<lparr>hmr_file = ''/proj/styles/b.css'', timestamp = 9\<rparr>
         (\<lambda>i. True) demo_served
       = (demo_served, Inr ())"
proof -
  have w: "w_ctx demo_watcher = 0" by (simp add: demo_watcher_def)
  have a: "ensureAbsolute demo_host ''/proj/styles/b.css'' (root demo_ctx)
             \<notin> set (w_sources demo_watcher)"
    by (simp add: demo_host_sel demo_absolute_def demo_watcher_def demo_ctx_sel)
  have f: "files demo_ctx ''/proj/styles/b.css'' = None" by (simp add: demo_ctx_sel)
  show ?thesis
    using irrelevant_change_noop
      [OF demo_served_facts(1) demo_served_facts(2) demo_served_facts(3) w a f,
        of "\<lambda>i. True" 9 9] w a f
    by (simp add: demo_served_facts(1,2,3))
qed

end
